theory Spec2Isabelle
  imports Complex_Main "HOL-Library.Sublist"
begin

section \<open>The tools of the code review agent (src/tools.ts)\<close>

text \<open>
  The three tool functions of \<^verbatim>\<open>src/tools.ts\<close> are embedded here. JavaScript strings
  are sequences of UTF-16 code units; a \<^typ>\<open>char\<close> of the model stands for one code
  unit, so that \<^const>\<open>length\<close> is \<^verbatim>\<open>String.prototype.length\<close>. The counts
  reported by the diff summary are non-negative integers (\<^typ>\<open>nat\<close>). The schema of
  \<^verbatim>\<open>maxLength\<close> is \<^verbatim>\<open>z.number()\<close>, which accepts every finite number, also a
  fraction, zero or a negative one; a finite JavaScript number is a rational, so
  \<^verbatim>\<open>maxLength\<close> is a \<^typ>\<open>rat\<close>. The one arithmetic step on it, \<^verbatim>\<open>maxLength - 3\<close>,
  is exact in double precision whenever a message can be longer than \<^verbatim>\<open>maxLength\<close>
  and the difference is not negative. An exception thrown by a collaborator (the git wrapper,
  the file system) is a value \<open>Inl e\<close>; the functions of the source catch nothing, so
  it propagates unchanged.
\<close>

subsection \<open>Collaborators: the git wrapper and the Node API\<close>

datatype error = GitError string | FsError string

text \<open>
  An entry of \<^verbatim>\<open>summary.files\<close>: a text file carries \<^verbatim>\<open>file\<close>, \<^verbatim>\<open>changes\<close>,
  \<^verbatim>\<open>insertions\<close> and \<^verbatim>\<open>deletions\<close>; a binary file carries \<^verbatim>\<open>file\<close>, \<^verbatim>\<open>before\<close> and
  \<^verbatim>\<open>after\<close> and has none of the three counters.
\<close>

datatype DiffResultFile =
    DiffResultTextFile string nat nat nat
  | DiffResultBinaryFile string nat nat

fun fileName :: "DiffResultFile \<Rightarrow> string" where
  "fileName (DiffResultTextFile f c i d) = f"
| "fileName (DiffResultBinaryFile f b a) = f"

text \<open>
  The object returned by \<^verbatim>\<open>simpleGit(rootDir)\<close>: the result of \<^verbatim>\<open>git.diffSummary()\<close>
  and of \<^verbatim>\<open>git.diff(args)\<close>. Either call may throw.
\<close>

record SimpleGit =
  git_diffSummary :: "error + DiffResultFile list"
  git_diff :: "string list \<Rightarrow> error + string"

text \<open>
  The Node functions used by \<^verbatim>\<open>writeMarkdownFile\<close>, over an abstract file system
  state \<^typ>\<open>'fs\<close>: \<^verbatim>\<open>existsSync\<close>, \<^verbatim>\<open>mkdirSync(dir, {recursive: true})\<close>,
  \<^verbatim>\<open>writeFileSync(path, data, 'utf8')\<close> and \<^verbatim>\<open>path.join\<close>. The join that Node
  provides on a POSIX platform is the function \<open>join\<close> defined below.
\<close>

record 'fs NodeApi =
  existsSync :: "'fs \<Rightarrow> string \<Rightarrow> bool"
  mkdirSync :: "string \<Rightarrow> 'fs \<Rightarrow> error + 'fs"
  writeFileSync :: "string \<Rightarrow> string \<Rightarrow> 'fs \<Rightarrow> error + 'fs"
  pathJoin :: "string \<Rightarrow> string \<Rightarrow> string"

subsection \<open>String primitives of JavaScript\<close>

text \<open>Decimal rendering of a non-negative integer, as a template literal prints it.\<close>

fun showNat :: "nat \<Rightarrow> string" where
  "showNat n =
     (if n < 10 then [''0123456789'' ! n]
      else showNat (n div 10) @ [''0123456789'' ! (n mod 10)])"

declare showNat.simps [simp del]

text \<open>\<^verbatim>\<open>Array.prototype.join(sep)\<close> on an array of strings.\<close>

fun joinWith :: "string \<Rightarrow> string list \<Rightarrow> string" where
  "joinWith sep [] = []"
| "joinWith sep [x] = x"
| "joinWith sep (x # y # ys) = x @ sep @ joinWith sep (y # ys)"

text \<open>
  The conversion of a number to an integer that the string methods apply to an index
  (\<^verbatim>\<open>ToIntegerOrInfinity\<close>): the fraction is dropped, towards zero.
\<close>

definition toInteger :: "rat \<Rightarrow> int" where
  "toInteger q = (if q < 0 then \<lceil>q\<rceil> else \<lfloor>q\<rfloor>)"

text \<open>
  \<^verbatim>\<open>String.prototype.substring(start, end)\<close>: both indices are converted to integers,
  clamped to \<open>[0, length]\<close> and swapped when \<open>start > end\<close>.
\<close>

definition substring :: "rat \<Rightarrow> rat \<Rightarrow> string \<Rightarrow> string" where
  "substring start end s =
     (let len = int (length s);
          a = min (max (toInteger start) 0) len;
          b = min (max (toInteger end) 0) len;
          lo = min a b;
          hi = max a b
      in take (nat (hi - lo)) (drop (nat lo) s))"

text \<open>\<^verbatim>\<open>String.prototype.endsWith(t)\<close>.\<close>

definition endsWith :: "string \<Rightarrow> string \<Rightarrow> bool" where
  "endsWith s t = (length t \<le> length s \<and> drop (length s - length t) s = t)"

subsection \<open>Node's path.join on a POSIX platform\<close>

text \<open>The segments of a path: the pieces between the occurrences of the separator.\<close>

fun splitOn :: "char \<Rightarrow> string \<Rightarrow> string list" where
  "splitOn c [] = [[]]"
| "splitOn c (x # xs) =
     (if x = c then [] # splitOn c xs
      else (case splitOn c xs of [] \<Rightarrow> [[x]] | y # ys \<Rightarrow> (x # y) # ys))"

text \<open>
  The loop of \<^verbatim>\<open>normalizeString\<close>, segment by segment, with the segments kept so far
  in \<open>res\<close>: an empty segment and a single dot are dropped; two dots remove the last
  segment kept unless there is none or it is itself two dots, in which case they are
  kept when the path is relative (\<open>allowAboveRoot\<close>) and dropped otherwise; any other
  segment is kept.
\<close>

fun normalizeSegments :: "bool \<Rightarrow> string list \<Rightarrow> string list \<Rightarrow> string list" where
  "normalizeSegments allowAboveRoot res [] = res"
| "normalizeSegments allowAboveRoot res (s # ss) =
     (if s = [] \<or> s = ''.'' then normalizeSegments allowAboveRoot res ss
      else if s = ''..'' then
        (if res \<noteq> [] \<and> last res \<noteq> ''..'' then normalizeSegments allowAboveRoot (butlast res) ss
         else if allowAboveRoot then normalizeSegments allowAboveRoot (res @ [''..'']) ss
         else normalizeSegments allowAboveRoot res ss)
      else normalizeSegments allowAboveRoot (res @ [s]) ss)"

text \<open>\<^verbatim>\<open>path.posix.normalize\<close>.\<close>

definition normalizePath :: "string \<Rightarrow> string" where
  "normalizePath path =
     (if path = [] then ''.''
      else
        (let isAbsolute = (hd path = CHR ''/'');
             trailingSeparator = (last path = CHR ''/'');
             p = joinWith ''/'' (normalizeSegments (\<not> isAbsolute) [] (splitOn (CHR ''/'') path))
         in if p = [] then
              (if isAbsolute then ''/'' else if trailingSeparator then ''./'' else ''.'')
            else (if isAbsolute then ''/'' else '''') @ p
                   @ (if trailingSeparator then ''/'' else '''')))"

text \<open>
  \<^verbatim>\<open>path.posix.join\<close> at its two arguments of line 124: the non-empty arguments are
  put together with a slash between them and the result is normalised; without a
  non-empty argument the result is a single dot.
\<close>

definition join :: "string \<Rightarrow> string \<Rightarrow> string" where
  "join a b =
     (let joined = joinWith ''/'' (filter (\<lambda>arg. length arg > 0) [a, b])
      in if joined = [] then ''.'' else normalizePath joined)"

subsection \<open>getFileChangesInDirectory\<close>

definition excludeFiles :: "string list" where
  "excludeFiles = [''dist'', ''bun.lock'']"

text \<open>The object literal \<^verbatim>\<open>{ file, diff }\<close> pushed onto \<^verbatim>\<open>diffs\<close>.\<close>

record FileDiff =
  fd_file :: string
  fd_diff :: string

text \<open>
  The \<^verbatim>\<open>for\<close> loop of lines 20 to 24, with the array \<^verbatim>\<open>diffs\<close> as the accumulator \<open>diffsAcc\<close>: an excluded
  file is skipped (\<^verbatim>\<open>continue\<close>), a failing \<^verbatim>\<open>git.diff\<close> ends the loop with its error.
\<close>

fun collectDiffs :: "SimpleGit \<Rightarrow> DiffResultFile list \<Rightarrow> FileDiff list \<Rightarrow> error + FileDiff list" where
  "collectDiffs git [] diffsAcc = Inr diffsAcc"
| "collectDiffs git (f # fs) diffsAcc =
     (if fileName f \<in> set excludeFiles then collectDiffs git fs diffsAcc
      else case git_diff git [''--'', fileName f] of
             Inl e \<Rightarrow> Inl e
           | Inr d \<Rightarrow> collectDiffs git fs (diffsAcc @ [\<lparr>fd_file = fileName f, fd_diff = d\<rparr>]))"

definition getFileChangesInDirectory ::
  "(string \<Rightarrow> error + SimpleGit) \<Rightarrow> string \<Rightarrow> error + FileDiff list" where
  "getFileChangesInDirectory simpleGit rootDir =
     (case simpleGit rootDir of
        Inl e \<Rightarrow> Inl e
      | Inr git \<Rightarrow>
          (case git_diffSummary git of
             Inl e \<Rightarrow> Inl e
           | Inr files \<Rightarrow> collectDiffs git files []))"

subsection \<open>generateCommitMessage\<close>

record CommitMessageInput =
  rootDir :: string
  maxLength :: "rat option"

text \<open>The default of the destructuring pattern \<^verbatim>\<open>maxLength = 72\<close>.\<close>

definition maxLengthOf :: "CommitMessageInput \<Rightarrow> rat" where
  "maxLengthOf inp = (case maxLength inp of None \<Rightarrow> 72 | Some m \<Rightarrow> m)"

record ChangedFile =
  cf_file :: string
  changes :: nat
  insertions :: nat
  deletions :: nat

text \<open>
  The mapping of lines 54 to 59: each counter is read when the entry has the property,
  and is 0 otherwise.
\<close>

fun toChangedFile :: "DiffResultFile \<Rightarrow> ChangedFile" where
  "toChangedFile (DiffResultTextFile f c i d) =
     \<lparr>cf_file = f, changes = c, insertions = i, deletions = d\<rparr>"
| "toChangedFile (DiffResultBinaryFile f b a) =
     \<lparr>cf_file = f, changes = 0, insertions = 0, deletions = 0\<rparr>"

definition changedFilesOf :: "DiffResultFile list \<Rightarrow> ChangedFile list" where
  "changedFilesOf files =
     map toChangedFile (filter (\<lambda>f. fileName f \<notin> set excludeFiles) files)"

definition newFilesOf :: "ChangedFile list \<Rightarrow> ChangedFile list" where
  "newFilesOf changedFiles = filter (\<lambda>f. insertions f > 0 \<and> deletions f = 0) changedFiles"

definition deletedFilesOf :: "ChangedFile list \<Rightarrow> ChangedFile list" where
  "deletedFilesOf changedFiles = filter (\<lambda>f. insertions f = 0 \<and> deletions f > 0) changedFiles"

definition modifiedFilesOf :: "ChangedFile list \<Rightarrow> ChangedFile list" where
  "modifiedFilesOf changedFiles = filter (\<lambda>f. insertions f > 0 \<and> deletions f > 0) changedFiles"

text \<open>The value of \<^verbatim>\<open>commitMessage\<close> after the chain of lines 68 to 83.\<close>

definition headline :: "ChangedFile list \<Rightarrow> string" where
  "headline changedFiles =
     (let newFiles = newFilesOf changedFiles;
          deletedFiles = deletedFilesOf changedFiles;
          modifiedFiles = modifiedFilesOf changedFiles
      in if length newFiles > 0 then
           ''Add '' @ showNat (length newFiles) @ '' new file''
             @ (if length newFiles > 1 then ''s'' else '''')
             @ (if length newFiles \<le> 3 then '': '' @ joinWith '', '' (map cf_file newFiles) else '''')
         else if length deletedFiles > 0 then
           ''Remove '' @ showNat (length deletedFiles) @ '' file''
             @ (if length deletedFiles > 1 then ''s'' else '''')
             @ (if length deletedFiles \<le> 3 then '': '' @ joinWith '', '' (map cf_file deletedFiles) else '''')
         else if length modifiedFiles > 0 then
           ''Update '' @ showNat (length modifiedFiles) @ '' file''
             @ (if length modifiedFiles > 1 then ''s'' else '''')
             @ (if length modifiedFiles \<le> 3 then '': '' @ joinWith '', '' (map cf_file modifiedFiles) else '''')
         else '''')"

definition totalInsertions :: "ChangedFile list \<Rightarrow> nat" where
  "totalInsertions changedFiles = foldl (\<lambda>sum f. sum + insertions f) 0 changedFiles"

definition totalDeletions :: "ChangedFile list \<Rightarrow> nat" where
  "totalDeletions changedFiles = foldl (\<lambda>sum f. sum + deletions f) 0 changedFiles"

text \<open>The text appended by lines 89 to 91.\<close>

definition statsSuffix :: "ChangedFile list \<Rightarrow> string" where
  "statsSuffix changedFiles =
     (if totalInsertions changedFiles > 0 \<or> totalDeletions changedFiles > 0 then
        '' (+'' @ showNat (totalInsertions changedFiles)
          @ '' -'' @ showNat (totalDeletions changedFiles) @ '')''
      else '''')"

text \<open>The value of \<^verbatim>\<open>commitMessage\<close> after line 91, before the truncation.\<close>

definition assembledMessage :: "ChangedFile list \<Rightarrow> string" where
  "assembledMessage changedFiles = headline changedFiles @ statsSuffix changedFiles"

text \<open>Lines 94 to 96.\<close>

definition truncateMessage :: "rat \<Rightarrow> string \<Rightarrow> string" where
  "truncateMessage maxLen commitMessage =
     (if of_nat (length commitMessage) > maxLen then
        substring 0 (maxLen - 3) commitMessage @ ''...''
      else commitMessage)"

definition generateCommitMessage ::
  "(string \<Rightarrow> error + SimpleGit) \<Rightarrow> CommitMessageInput \<Rightarrow> error + string" where
  "generateCommitMessage simpleGit inp =
     (case simpleGit (rootDir inp) of
        Inl e \<Rightarrow> Inl e
      | Inr git \<Rightarrow>
          (case git_diffSummary git of
             Inl e \<Rightarrow> Inl e
           | Inr files \<Rightarrow>
               if length files = 0 then Inr ''No changes detected''
               else Inr (truncateMessage (maxLengthOf inp)
                           (assembledMessage (changedFilesOf files)))))"

subsection \<open>writeMarkdownFile\<close>

record MarkdownWriteInput =
  content :: string
  filename :: string
  directory :: "string option"

record WriteResult =
  success :: bool
  filePath :: string
  message :: string

text \<open>The default of the destructuring pattern \<^verbatim>\<open>directory = "."\<close>.\<close>

definition directoryOf :: "MarkdownWriteInput \<Rightarrow> string" where
  "directoryOf inp = (case directory inp of None \<Rightarrow> ''.'' | Some d \<Rightarrow> d)"

text \<open>Line 123.\<close>

definition markdownFilename :: "string \<Rightarrow> string" where
  "markdownFilename name = (if endsWith name ''.md'' then name else name @ ''.md'')"

text \<open>Line 128; \<open>timestamp\<close> is the value of \<^verbatim>\<open>new Date().toISOString()\<close>.\<close>

definition header :: "string \<Rightarrow> string" where
  "header timestamp =
     ''# Code Review Report'' @ [CHR 0x0A, CHR 0x0A]
       @ ''*Generated on: '' @ timestamp @ ''*'' @ [CHR 0x0A, CHR 0x0A]
       @ ''---'' @ [CHR 0x0A, CHR 0x0A]"

definition writeMarkdownFile ::
  "'fs NodeApi \<Rightarrow> string \<Rightarrow> MarkdownWriteInput \<Rightarrow> 'fs \<Rightarrow> error + (WriteResult \<times> 'fs)" where
  "writeMarkdownFile node timestamp inp fs =
     (case (if \<not> existsSync node fs (directoryOf inp)
            then mkdirSync node (directoryOf inp) fs else Inr fs) of
        Inl e \<Rightarrow> Inl e
      | Inr fs1 \<Rightarrow>
          (let path = pathJoin node (directoryOf inp) (markdownFilename (filename inp));
               fullContent = header timestamp @ content inp
           in case writeFileSync node path fullContent fs1 of
                Inl e \<Rightarrow> Inl e
              | Inr fs2 \<Rightarrow>
                  Inr (\<lparr>success = True, filePath = path,
                        message = ''Markdown file written successfully to '' @ path\<rparr>, fs2)))"

subsection \<open>Fixtures for the concrete evaluations\<close>

text \<open>
  A repository whose diff summary is \<open>files\<close> and whose per-file diff of \<open>f\<close> is the
  text \<open>diff of f\<close>; and a file system kept as the list of the files written, in
  which every directory exists and \<^verbatim>\<open>path.join\<close> is Node's \<open>join\<close>.
\<close>

definition repoWith :: "DiffResultFile list \<Rightarrow> string \<Rightarrow> error + SimpleGit" where
  "repoWith files dir =
     Inr \<lparr>git_diffSummary = Inr files,
          git_diff = (\<lambda>args. Inr (''diff of '' @ concat (tl args)))\<rparr>"

definition listFs :: "((string \<times> string) list) NodeApi" where
  "listFs =
     \<lparr>existsSync = (\<lambda>fs d. True),
      mkdirSync = (\<lambda>d fs. Inr fs),
      writeFileSync = (\<lambda>p c fs. Inr ((p, c) # fs)),
      pathJoin = join\<rparr>"

section \<open>Auxiliary facts\<close>

lemmas run_defs =
  generateCommitMessage_def getFileChangesInDirectory_def maxLengthOf_def truncateMessage_def
  assembledMessage_def statsSuffix_def headline_def newFilesOf_def deletedFilesOf_def
  modifiedFilesOf_def changedFilesOf_def excludeFiles_def totalInsertions_def
  totalDeletions_def showNat.simps substring_def toInteger_def repoWith_def Let_def

lemma toInteger_of_int [simp]: "toInteger (of_int k) = k"
  by (simp add: toInteger_def)

lemma substring_from_start:
  "0 \<le> e \<Longrightarrow> e \<le> int (length s) \<Longrightarrow> substring 0 (of_int e) s = take (nat e) s"
  using toInteger_of_int [of 0] by (simp add: substring_def Let_def min_def max_def)

lemma truncateMessage_cut:
  assumes "3 \<le> m" and "of_int m < (of_nat (length s) :: rat)"
  shows "truncateMessage (of_int m) s = take (nat (m - 3)) s @ ''...''"
proof -
  from assms(2) have "(of_int m :: rat) < of_int (int (length s))" by simp
  then have less: "m < int (length s)" by (simp only: of_int_less_iff)
  have "substring 0 (of_int m - 3) s = substring 0 (of_int (m - 3)) s" by simp
  also have "\<dots> = take (nat (m - 3)) s"
    using assms(1) less by (intro substring_from_start) simp_all
  finally show ?thesis using assms(2) by (simp add: truncateMessage_def)
qed

lemma generateCommitMessage_run:
  assumes "simpleGit (rootDir inp) = Inr git" and "git_diffSummary git = Inr files"
  shows "generateCommitMessage simpleGit inp =
           (if files = [] then Inr ''No changes detected''
            else Inr (truncateMessage (maxLengthOf inp) (assembledMessage (changedFilesOf files))))"
  using assms by (simp add: generateCommitMessage_def)

lemma cf_file_toChangedFile [simp]: "cf_file (toChangedFile f) = fileName f"
  by (cases f) simp_all

lemma excluded_iff: "fileName f \<in> set excludeFiles \<longleftrightarrow> fileName f = ''dist'' \<or> fileName f = ''bun.lock''"
  by (auto simp: excludeFiles_def)

lemma bucket_names:
  "map cf_file (filter P (changedFilesOf files)) =
     map fileName (filter (\<lambda>f. fileName f \<notin> set excludeFiles \<and> P (toChangedFile f)) files)"
  by (induction files) (simp_all add: changedFilesOf_def)

lemma headline_new:
  assumes "newFilesOf cf \<noteq> []"
  shows "headline cf =
           ''Add '' @ showNat (length (newFilesOf cf)) @ '' new file''
             @ (if length (newFilesOf cf) > 1 then ''s'' else '''')
             @ (if length (newFilesOf cf) \<le> 3
                then '': '' @ joinWith '', '' (map cf_file (newFilesOf cf)) else '''')"
  using assms by (simp add: headline_def Let_def)

lemma headline_deleted:
  assumes "newFilesOf cf = []" and "deletedFilesOf cf \<noteq> []"
  shows "headline cf =
           ''Remove '' @ showNat (length (deletedFilesOf cf)) @ '' file''
             @ (if length (deletedFilesOf cf) > 1 then ''s'' else '''')
             @ (if length (deletedFilesOf cf) \<le> 3
                then '': '' @ joinWith '', '' (map cf_file (deletedFilesOf cf)) else '''')"
  using assms by (simp add: headline_def Let_def)

lemma headline_modified:
  assumes "newFilesOf cf = []" and "deletedFilesOf cf = []" and "modifiedFilesOf cf \<noteq> []"
  shows "headline cf =
           ''Update '' @ showNat (length (modifiedFilesOf cf)) @ '' file''
             @ (if length (modifiedFilesOf cf) > 1 then ''s'' else '''')
             @ (if length (modifiedFilesOf cf) \<le> 3
                then '': '' @ joinWith '', '' (map cf_file (modifiedFilesOf cf)) else '''')"
  using assms by (simp add: headline_def Let_def)

lemma headline_none:
  assumes "newFilesOf cf = []" and "deletedFilesOf cf = []" and "modifiedFilesOf cf = []"
  shows "headline cf = []"
  using assms by (simp add: headline_def Let_def)

lemma collectDiffs_total:
  assumes "\<forall>f \<in> set fs. fileName f \<notin> set excludeFiles \<longrightarrow>
             git_diff git [''--'', fileName f] = Inr (d (fileName f))"
  shows "collectDiffs git fs acc =
           Inr (acc @ map (\<lambda>f. \<lparr>fd_file = fileName f, fd_diff = d (fileName f)\<rparr>)
                        (filter (\<lambda>f. fileName f \<notin> set excludeFiles) fs))"
  using assms by (induction fs arbitrary: acc) simp_all

lemma collectDiffs_names:
  "collectDiffs git fs acc = Inr out \<Longrightarrow>
     map fd_file out =
       map fd_file acc @ filter (\<lambda>n. n \<notin> set excludeFiles) (map fileName fs)"
proof (induction fs arbitrary: acc)
  case Nil
  then show ?case by simp
next
  case (Cons f fs)
  show ?case
  proof (cases "fileName f \<in> set excludeFiles")
    case True
    with Cons show ?thesis by simp
  next
    case False
    with Cons.prems obtain d where d: "git_diff git [''--'', fileName f] = Inr d"
      and rest: "collectDiffs git fs (acc @ [\<lparr>fd_file = fileName f, fd_diff = d\<rparr>]) = Inr out"
      by (auto split: sum.splits)
    from Cons.IH [OF rest] False show ?thesis by simp
  qed
qed

lemma endsWith_append_self: "endsWith (name @ t) t"
  by (simp add: endsWith_def)

lemma markdownFilename_ends: "endsWith (markdownFilename name) ''.md''"
proof (cases "endsWith name ''.md''")
  case True
  then show ?thesis by (simp add: markdownFilename_def)
next
  case False
  then show ?thesis
    using endsWith_append_self [of name "''.md''"] by (simp add: markdownFilename_def)
qed

lemma writeMarkdownFile_result:
  assumes "writeMarkdownFile node timestamp inp fs = Inr (r, fs')"
  shows "r = \<lparr>success = True,
              filePath = pathJoin node (directoryOf inp) (markdownFilename (filename inp)),
              message = ''Markdown file written successfully to ''
                @ pathJoin node (directoryOf inp) (markdownFilename (filename inp))\<rparr>"
  using assms by (auto simp: writeMarkdownFile_def Let_def split: sum.splits if_splits)

section \<open>The length bound of the commit message\<close>

text \<open>
  Claim C1 (the returned message is never longer than \<open>maxLength\<close>, for every positive
  \<open>maxLength\<close>): the code cuts the message to \<open>maxLength - 3\<close> characters and appends
  three dots, and \<^verbatim>\<open>substring\<close> treats a negative end as 0. With \<open>maxLength = 2\<close> and
  one added file the function therefore returns the three dots alone, a string of length
  3, longer than the bound of 2 that its schema documents as the maximum length.
\<close>

theorem short_bound_overrun:
  "generateCommitMessage (repoWith [DiffResultTextFile ''a.ts'' 10 10 0])
     \<lparr>rootDir = ''repo'', maxLength = Some 2\<rparr> = Inr ''...''
   \<and> \<not> (of_nat (length ''...'') :: rat) \<le> 2"
  by (simp add: run_defs)

text \<open>
  Claim C9 as stated (whenever the assembled message exceeds \<open>maxLength\<close> and
  \<open>maxLength \<ge> 3\<close>, the returned string has length exactly \<open>maxLength\<close>) fails at a
  bound that is not an integer: with \<open>maxLength = 20.5\<close> the 36 characters of the
  message are cut to 17, the fraction of \<open>17.5\<close> being dropped by \<^verbatim>\<open>substring\<close>, and
  the returned string has length 20.
\<close>

theorem fractional_bound_counterexample:
  "generateCommitMessage
     (repoWith [DiffResultTextFile ''a.ts'' 10 10 0, DiffResultTextFile ''b.ts'' 3 3 0])
     \<lparr>rootDir = ''repo'', maxLength = Some (41 / 2)\<rparr> = Inr ''Add 2 new files: ...''
   \<and> (3 :: rat) \<le> 41 / 2
   \<and> (41 / 2 :: rat) < of_nat (length (assembledMessage (changedFilesOf
        [DiffResultTextFile ''a.ts'' 10 10 0, DiffResultTextFile ''b.ts'' 3 3 0])))
   \<and> (of_nat (length ''Add 2 new files: ...'') :: rat) \<noteq> 41 / 2"
  by code_simp

text \<open>
  Claim C9, amended: whenever the assembled message is longer than \<open>maxLength\<close> and
  \<open>maxLength\<close> is an integer with \<open>maxLength \<ge> 3\<close>, the returned string has length
  exactly \<open>maxLength\<close>: it is the first \<open>maxLength - 3\<close> characters of the assembled
  message followed by three dots.
\<close>

theorem truncated_length_exact:
  assumes "simpleGit (rootDir inp) = Inr git"
    and "git_diffSummary git = Inr files"
    and "files \<noteq> []"
    and "maxLengthOf inp = of_int m"
    and "3 \<le> m"
    and "maxLengthOf inp < of_nat (length (assembledMessage (changedFilesOf files)))"
  shows "\<exists>out. generateCommitMessage simpleGit inp = Inr out
           \<and> of_nat (length out) = maxLengthOf inp
           \<and> out = take (nat (m - 3)) (assembledMessage (changedFilesOf files)) @ ''...''"
proof -
  let ?msg = "assembledMessage (changedFilesOf files)"
  let ?out = "take (nat (m - 3)) ?msg @ ''...''"
  have run: "generateCommitMessage simpleGit inp = Inr (truncateMessage (maxLengthOf inp) ?msg)"
    using assms(1-3) by (simp add: generateCommitMessage_run)
  have long: "(of_int m :: rat) < of_nat (length ?msg)"
    using assms(4,6) by simp
  have cut: "truncateMessage (maxLengthOf inp) ?msg = ?out"
    unfolding assms(4) using assms(5) long by (rule truncateMessage_cut)
  from long have "(of_int m :: rat) < of_int (int (length ?msg))" by simp
  then have "m < int (length ?msg)" by (simp only: of_int_less_iff)
  with assms(5) have "int (length ?out) = m" by simp
  then have "(of_int (int (length ?out)) :: rat) = of_int m" by (simp only:)
  then have len: "(of_nat (length ?out) :: rat) = maxLengthOf inp"
    using assms(4) by simp
  from run cut len show ?thesis by simp
qed

theorem truncated_length_exact_witness:
  "maxLengthOf \<lparr>rootDir = ''repo'', maxLength = Some 20\<rparr> = of_int 20
   \<and> maxLengthOf \<lparr>rootDir = ''repo'', maxLength = Some 20\<rparr>
       < of_nat (length (assembledMessage (changedFilesOf
           [DiffResultTextFile ''a.ts'' 10 10 0, DiffResultTextFile ''b.ts'' 3 3 0])))
   \<and> generateCommitMessage
        (repoWith [DiffResultTextFile ''a.ts'' 10 10 0, DiffResultTextFile ''b.ts'' 3 3 0])
        \<lparr>rootDir = ''repo'', maxLength = Some 20\<rparr> = Inr ''Add 2 new files: ...''
   \<and> (of_nat (length ''Add 2 new files: ...'') :: rat) = 20"
  using truncated_length_exact
    [of "repoWith [DiffResultTextFile ''a.ts'' 10 10 0, DiffResultTextFile ''b.ts'' 3 3 0]"
      "\<lparr>rootDir = ''repo'', maxLength = Some 20\<rparr>"
      "\<lparr>git_diffSummary =
          Inr [DiffResultTextFile ''a.ts'' 10 10 0, DiffResultTextFile ''b.ts'' 3 3 0],
        git_diff = (\<lambda>args. Inr (''diff of '' @ concat (tl args)))\<rparr>"
      "[DiffResultTextFile ''a.ts'' 10 10 0, DiffResultTextFile ''b.ts'' 3 3 0]"
      20]
  by (simp add: run_defs)

section \<open>The sentinel for an empty change list\<close>

text \<open>
  Claim C2 (an input whose filtered form is empty yields the sentinel
  \<open>No changes detected\<close>): the code tests the unfiltered \<^verbatim>\<open>summary.files\<close> for
  emptiness, before the exclusion filter runs. When the only changed file is the
  excluded \<open>bun.lock\<close>, the filtered list is empty, no bucket and no total is non-zero,
  and the function returns the empty string instead of the sentinel.
\<close>

theorem excluded_only_empty_message:
  "changedFilesOf [DiffResultTextFile ''bun.lock'' 12 7 5] = []
   \<and> generateCommitMessage (repoWith [DiffResultTextFile ''bun.lock'' 12 7 5])
        \<lparr>rootDir = ''repo'', maxLength = None\<rparr> = Inr ''''
   \<and> generateCommitMessage (repoWith [])
        \<lparr>rootDir = ''repo'', maxLength = None\<rparr> = Inr ''No changes detected''"
  by (simp add: run_defs)

section \<open>The headline\<close>

text \<open>
  Claim C3 as stated (the headline of a list of pure additions begins with
  \<open>Add N file\<close>, and the two-file example yields \<open>Add 2 files: a.ts, b.ts (+13 -0)\<close>)
  fails: the code writes the word \<open>new\<close> between the count and \<open>file\<close>.
\<close>

theorem add_example_counterexample:
  "generateCommitMessage
     (repoWith [DiffResultTextFile ''a.ts'' 10 10 0, DiffResultTextFile ''b.ts'' 3 3 0])
     \<lparr>rootDir = ''repo'', maxLength = Some 72\<rparr> = Inr ''Add 2 new files: a.ts, b.ts (+13 -0)''
   \<and> ''Add 2 new files: a.ts, b.ts (+13 -0)'' \<noteq> ''Add 2 files: a.ts, b.ts (+13 -0)''
   \<and> \<not> prefix ''Add 2 file'' ''Add 2 new files: a.ts, b.ts (+13 -0)''"
  by (simp add: run_defs)

text \<open>
  Claim C3, amended: when every record of the summary is a pure addition (insertions
  \<open>> 0\<close>, deletions \<open>= 0\<close>) and at least one of them is not excluded, the Added bucket
  is the whole filtered list, and with \<open>N\<close> its size the assembled message begins with
  \<open>Add N new file\<close> when \<open>N = 1\<close> and with \<open>Add N new files\<close> otherwise; the function
  returns that message, cut to \<open>maxLength\<close> when it is longer, so a message that fits
  is returned with this beginning. The input \<open>[{a.ts,+10,-0},{b.ts,+3,-0}]\<close> with
  \<open>maxLength = 72\<close> yields exactly \<open>Add 2 new files: a.ts, b.ts (+13 -0)\<close>.
\<close>

theorem add_headline_new_files:
  assumes "simpleGit (rootDir inp) = Inr git"
    and "git_diffSummary git = Inr files"
    and "\<forall>f \<in> set files. insertions (toChangedFile f) > 0 \<and> deletions (toChangedFile f) = 0"
    and "changedFilesOf files \<noteq> []"
  shows "newFilesOf (changedFilesOf files) = changedFilesOf files
    \<and> prefix (''Add '' @ showNat (length (changedFilesOf files))
               @ (if length (changedFilesOf files) = 1 then '' new file'' else '' new files''))
             (assembledMessage (changedFilesOf files))
    \<and> generateCommitMessage simpleGit inp =
        Inr (truncateMessage (maxLengthOf inp) (assembledMessage (changedFilesOf files)))
    \<and> (of_nat (length (assembledMessage (changedFilesOf files))) \<le> maxLengthOf inp \<longrightarrow>
        generateCommitMessage simpleGit inp = Inr (assembledMessage (changedFilesOf files)))
    \<and> generateCommitMessage
        (repoWith [DiffResultTextFile ''a.ts'' 10 10 0, DiffResultTextFile ''b.ts'' 3 3 0])
        \<lparr>rootDir = ''repo'', maxLength = Some 72\<rparr>
          = Inr ''Add 2 new files: a.ts, b.ts (+13 -0)''"
proof -
  let ?cf = "changedFilesOf files"
  have all_new: "\<forall>c \<in> set ?cf. insertions c > 0 \<and> deletions c = 0"
    using assms(3) by (auto simp: changedFilesOf_def)
  then have new: "newFilesOf ?cf = ?cf"
    by (simp add: newFilesOf_def)
  with assms(4) have ne: "newFilesOf ?cf \<noteq> []" by simp
  have "0 < length ?cf" using assms(4) by simp
  then have cases: "length ?cf = 1 \<or> 1 < length ?cf" by arith
  have pre: "prefix (''Add '' @ showNat (length ?cf)
               @ (if length ?cf = 1 then '' new file'' else '' new files''))
             (assembledMessage ?cf)"
    using cases headline_new [OF ne] by (auto simp: new assembledMessage_def)
  have "files \<noteq> []" using assms(4) by (auto simp: changedFilesOf_def)
  then have run: "generateCommitMessage simpleGit inp =
        Inr (truncateMessage (maxLengthOf inp) (assembledMessage ?cf))"
    using assms(1,2) by (simp add: generateCommitMessage_run)
  have fits: "of_nat (length (assembledMessage ?cf)) \<le> maxLengthOf inp \<longrightarrow>
        generateCommitMessage simpleGit inp = Inr (assembledMessage ?cf)"
    using run by (simp add: truncateMessage_def)
  have ex: "generateCommitMessage
        (repoWith [DiffResultTextFile ''a.ts'' 10 10 0, DiffResultTextFile ''b.ts'' 3 3 0])
        \<lparr>rootDir = ''repo'', maxLength = Some 72\<rparr>
          = Inr ''Add 2 new files: a.ts, b.ts (+13 -0)''"
    by (simp add: run_defs)
  from new pre run fits ex show ?thesis by blast
qed

theorem add_headline_new_files_witness:
  "insertions (toChangedFile (DiffResultTextFile ''a.ts'' 10 10 0)) > 0
   \<and> deletions (toChangedFile (DiffResultTextFile ''a.ts'' 10 10 0)) = 0
   \<and> changedFilesOf [DiffResultTextFile ''a.ts'' 10 10 0] \<noteq> []
   \<and> prefix ''Add 1 new file'' (assembledMessage (changedFilesOf [DiffResultTextFile ''a.ts'' 10 10 0]))
   \<and> generateCommitMessage (repoWith [DiffResultTextFile ''a.ts'' 10 10 0])
        \<lparr>rootDir = ''repo'', maxLength = None\<rparr> = Inr ''Add 1 new file: a.ts (+10 -0)''"
  using add_headline_new_files
    [of "repoWith [DiffResultTextFile ''a.ts'' 10 10 0]"
      "\<lparr>rootDir = ''repo'', maxLength = None\<rparr>"
      "\<lparr>git_diffSummary = Inr [DiffResultTextFile ''a.ts'' 10 10 0],
        git_diff = (\<lambda>args. Inr (''diff of '' @ concat (tl args)))\<rparr>"
      "[DiffResultTextFile ''a.ts'' 10 10 0]"]
  by (simp add: run_defs)

text \<open>
  Claim C5 as stated (for every non-empty filtered sequence the headline uses \<open>Add\<close>
  when some record is a pure addition, otherwise \<open>Remove\<close> when some record is a pure
  deletion, otherwise \<open>Update\<close> for the Modified bucket) fails where no record belongs
  to a bucket: the last branch of the chain is guarded by
  \<^verbatim>\<open>modifiedFiles.length > 0\<close>. A file reported with no insertion and no deletion
  leaves the three buckets empty, and the function returns the empty string, without
  a verb.
\<close>

theorem no_bucket_counterexample:
  "changedFilesOf [DiffResultTextFile ''run.sh'' 0 0 0] \<noteq> []
   \<and> newFilesOf (changedFilesOf [DiffResultTextFile ''run.sh'' 0 0 0]) = []
   \<and> deletedFilesOf (changedFilesOf [DiffResultTextFile ''run.sh'' 0 0 0]) = []
   \<and> generateCommitMessage (repoWith [DiffResultTextFile ''run.sh'' 0 0 0])
        \<lparr>rootDir = ''repo'', maxLength = None\<rparr> = Inr ''''
   \<and> \<not> prefix ''Update'' ''''"
  by (simp add: run_defs)

text \<open>
  Claim C5, amended: the verb and the count of the headline come from the first
  non-empty bucket in the order Added, Deleted, Modified. When some filtered record is
  a pure addition the message begins with \<open>Add\<close> and the size of the Added bucket,
  whatever the other records are; otherwise, when some record is a pure deletion, with
  \<open>Remove\<close> and the size of the Deleted bucket; otherwise, when some record is
  modified, with \<open>Update\<close> and the size of the Modified bucket. When all three buckets
  are empty there is no headline at all. The function returns this message, cut to
  \<open>maxLength\<close> when longer.
\<close>

theorem headline_precedence:
  assumes "simpleGit (rootDir inp) = Inr git"
    and "git_diffSummary git = Inr files"
    and "files \<noteq> []"
  shows "let cf = changedFilesOf files; msg = assembledMessage cf in
      generateCommitMessage simpleGit inp = Inr (truncateMessage (maxLengthOf inp) msg)
    \<and> (newFilesOf cf \<noteq> [] \<longrightarrow>
          prefix (''Add '' @ showNat (length (newFilesOf cf)) @ '' new file'') msg)
    \<and> (newFilesOf cf = [] \<and> deletedFilesOf cf \<noteq> [] \<longrightarrow>
          prefix (''Remove '' @ showNat (length (deletedFilesOf cf)) @ '' file'') msg)
    \<and> (newFilesOf cf = [] \<and> deletedFilesOf cf = [] \<and> modifiedFilesOf cf \<noteq> [] \<longrightarrow>
          prefix (''Update '' @ showNat (length (modifiedFilesOf cf)) @ '' file'') msg)
    \<and> (newFilesOf cf = [] \<and> deletedFilesOf cf = [] \<and> modifiedFilesOf cf = [] \<longrightarrow>
          headline cf = [])"
proof -
  let ?cf = "changedFilesOf files"
  let ?msg = "assembledMessage ?cf"
  have run: "generateCommitMessage simpleGit inp = Inr (truncateMessage (maxLengthOf inp) ?msg)"
    using assms by (simp add: generateCommitMessage_run)
  have added: "prefix (''Add '' @ showNat (length (newFilesOf ?cf)) @ '' new file'') ?msg"
    if "newFilesOf ?cf \<noteq> []"
    using headline_new [OF that] by (simp add: assembledMessage_def)
  have removed: "prefix (''Remove '' @ showNat (length (deletedFilesOf ?cf)) @ '' file'') ?msg"
    if "newFilesOf ?cf = []" and "deletedFilesOf ?cf \<noteq> []"
    using headline_deleted [OF that] by (simp add: assembledMessage_def)
  have updated: "prefix (''Update '' @ showNat (length (modifiedFilesOf ?cf)) @ '' file'') ?msg"
    if "newFilesOf ?cf = []" and "deletedFilesOf ?cf = []" and "modifiedFilesOf ?cf \<noteq> []"
    using headline_modified [OF that] by (simp add: assembledMessage_def)
  have none: "headline ?cf = []"
    if "newFilesOf ?cf = []" and "deletedFilesOf ?cf = []" and "modifiedFilesOf ?cf = []"
    using that by (rule headline_none)
  from run added removed updated none show ?thesis
    unfolding Let_def by blast
qed

theorem headline_precedence_witness:
  "newFilesOf (changedFilesOf
      [DiffResultTextFile ''y.ts'' 3 0 3, DiffResultTextFile ''z.ts'' 4 2 2,
       DiffResultTextFile ''x.ts'' 5 5 0]) \<noteq> []
   \<and> generateCommitMessage
        (repoWith [DiffResultTextFile ''y.ts'' 3 0 3, DiffResultTextFile ''z.ts'' 4 2 2,
                   DiffResultTextFile ''x.ts'' 5 5 0])
        \<lparr>rootDir = ''repo'', maxLength = None\<rparr> = Inr ''Add 1 new file: x.ts (+7 -5)''
   \<and> prefix ''Add 1 new file'' (assembledMessage (changedFilesOf
        [DiffResultTextFile ''y.ts'' 3 0 3, DiffResultTextFile ''z.ts'' 4 2 2,
         DiffResultTextFile ''x.ts'' 5 5 0]))
   \<and> prefix ''Remove 1 file'' (assembledMessage (changedFilesOf
        [DiffResultTextFile ''z.ts'' 4 2 2, DiffResultTextFile ''y.ts'' 3 0 3]))
   \<and> prefix ''Update 2 file'' (assembledMessage (changedFilesOf
        [DiffResultTextFile ''z.ts'' 4 2 2, DiffResultBinaryFile ''p.png'' 10 20,
         DiffResultTextFile ''w.ts'' 2 1 1]))
   \<and> modifiedFilesOf (changedFilesOf [DiffResultBinaryFile ''p.png'' 10 20]) = []
   \<and> headline (changedFilesOf [DiffResultBinaryFile ''p.png'' 10 20]) = []"
  using
    headline_precedence
      [of "repoWith [DiffResultBinaryFile ''p.png'' 10 20]"
        "\<lparr>rootDir = ''repo'', maxLength = None\<rparr>"
        "\<lparr>git_diffSummary = Inr [DiffResultBinaryFile ''p.png'' 10 20],
          git_diff = (\<lambda>args. Inr (''diff of '' @ concat (tl args)))\<rparr>"
        "[DiffResultBinaryFile ''p.png'' 10 20]"]
    headline_precedence
      [of "repoWith [DiffResultTextFile ''y.ts'' 3 0 3, DiffResultTextFile ''z.ts'' 4 2 2,
                     DiffResultTextFile ''x.ts'' 5 5 0]"
        "\<lparr>rootDir = ''repo'', maxLength = None\<rparr>"
        "\<lparr>git_diffSummary =
            Inr [DiffResultTextFile ''y.ts'' 3 0 3, DiffResultTextFile ''z.ts'' 4 2 2,
                 DiffResultTextFile ''x.ts'' 5 5 0],
          git_diff = (\<lambda>args. Inr (''diff of '' @ concat (tl args)))\<rparr>"
        "[DiffResultTextFile ''y.ts'' 3 0 3, DiffResultTextFile ''z.ts'' 4 2 2,
          DiffResultTextFile ''x.ts'' 5 5 0]"]
    headline_precedence
      [of "repoWith [DiffResultTextFile ''z.ts'' 4 2 2, DiffResultTextFile ''y.ts'' 3 0 3]"
        "\<lparr>rootDir = ''repo'', maxLength = None\<rparr>"
        "\<lparr>git_diffSummary =
            Inr [DiffResultTextFile ''z.ts'' 4 2 2, DiffResultTextFile ''y.ts'' 3 0 3],
          git_diff = (\<lambda>args. Inr (''diff of '' @ concat (tl args)))\<rparr>"
        "[DiffResultTextFile ''z.ts'' 4 2 2, DiffResultTextFile ''y.ts'' 3 0 3]"]
    headline_precedence
      [of "repoWith [DiffResultTextFile ''z.ts'' 4 2 2, DiffResultBinaryFile ''p.png'' 10 20,
                     DiffResultTextFile ''w.ts'' 2 1 1]"
        "\<lparr>rootDir = ''repo'', maxLength = None\<rparr>"
        "\<lparr>git_diffSummary =
            Inr [DiffResultTextFile ''z.ts'' 4 2 2, DiffResultBinaryFile ''p.png'' 10 20,
                 DiffResultTextFile ''w.ts'' 2 1 1],
          git_diff = (\<lambda>args. Inr (''diff of '' @ concat (tl args)))\<rparr>"
        "[DiffResultTextFile ''z.ts'' 4 2 2, DiffResultBinaryFile ''p.png'' 10 20,
          DiffResultTextFile ''w.ts'' 2 1 1]"]
  by (simp add: run_defs)

text \<open>
  Claim C6: the listing is appended exactly when the winning bucket has at most three
  members. With the winning bucket of size \<open>n \<le> 3\<close> the assembled message is the verb
  phrase, then a colon and a blank, then the file names of the bucket joined with a
  comma and a blank, then the totals; with \<open>n \<ge> 4\<close> it is the verb phrase directly
  followed by the totals. The names of a bucket are those of the summary entries that
  are not excluded and belong to the bucket, in the order of the summary.
\<close>

theorem listing_threshold:
  assumes "simpleGit (rootDir inp) = Inr git"
    and "git_diffSummary git = Inr files"
    and "files \<noteq> []"
  shows "let cf = changedFilesOf files; msg = assembledMessage cf;
             new = newFilesOf cf; del = deletedFilesOf cf; upd = modifiedFilesOf cf in
      generateCommitMessage simpleGit inp = Inr (truncateMessage (maxLengthOf inp) msg)
    \<and> (new \<noteq> [] \<and> length new \<le> 3 \<longrightarrow>
          msg = ''Add '' @ showNat (length new) @ '' new file''
                  @ (if length new > 1 then ''s'' else '''')
                  @ '': '' @ joinWith '', '' (map cf_file new) @ statsSuffix cf)
    \<and> (4 \<le> length new \<longrightarrow>
          msg = ''Add '' @ showNat (length new) @ '' new files'' @ statsSuffix cf)
    \<and> (new = [] \<and> del \<noteq> [] \<and> length del \<le> 3 \<longrightarrow>
          msg = ''Remove '' @ showNat (length del) @ '' file''
                  @ (if length del > 1 then ''s'' else '''')
                  @ '': '' @ joinWith '', '' (map cf_file del) @ statsSuffix cf)
    \<and> (new = [] \<and> 4 \<le> length del \<longrightarrow>
          msg = ''Remove '' @ showNat (length del) @ '' files'' @ statsSuffix cf)
    \<and> (new = [] \<and> del = [] \<and> upd \<noteq> [] \<and> length upd \<le> 3 \<longrightarrow>
          msg = ''Update '' @ showNat (length upd) @ '' file''
                  @ (if length upd > 1 then ''s'' else '''')
                  @ '': '' @ joinWith '', '' (map cf_file upd) @ statsSuffix cf)
    \<and> (new = [] \<and> del = [] \<and> 4 \<le> length upd \<longrightarrow>
          msg = ''Update '' @ showNat (length upd) @ '' files'' @ statsSuffix cf)
    \<and> map cf_file new =
        map fileName (filter (\<lambda>f. fileName f \<notin> set excludeFiles
          \<and> insertions (toChangedFile f) > 0 \<and> deletions (toChangedFile f) = 0) files)
    \<and> map cf_file del =
        map fileName (filter (\<lambda>f. fileName f \<notin> set excludeFiles
          \<and> insertions (toChangedFile f) = 0 \<and> deletions (toChangedFile f) > 0) files)
    \<and> map cf_file upd =
        map fileName (filter (\<lambda>f. fileName f \<notin> set excludeFiles
          \<and> insertions (toChangedFile f) > 0 \<and> deletions (toChangedFile f) > 0) files)"
proof -
  let ?cf = "changedFilesOf files"
  let ?msg = "assembledMessage ?cf"
  let ?new = "newFilesOf ?cf"
  let ?del = "deletedFilesOf ?cf"
  let ?upd = "modifiedFilesOf ?cf"
  have run: "generateCommitMessage simpleGit inp = Inr (truncateMessage (maxLengthOf inp) ?msg)"
    using assms by (simp add: generateCommitMessage_run)
  have n3: "?msg = ''Add '' @ showNat (length ?new) @ '' new file''
                  @ (if length ?new > 1 then ''s'' else '''')
                  @ '': '' @ joinWith '', '' (map cf_file ?new) @ statsSuffix ?cf"
    if "?new \<noteq> []" and "length ?new \<le> 3"
    using headline_new [OF that(1)] that(2) by (simp add: assembledMessage_def)
  have n4: "?msg = ''Add '' @ showNat (length ?new) @ '' new files'' @ statsSuffix ?cf"
    if "4 \<le> length ?new"
  proof -
    from that have "?new \<noteq> []" by auto
    from headline_new [OF this] that show ?thesis by (simp add: assembledMessage_def)
  qed
  have d3: "?msg = ''Remove '' @ showNat (length ?del) @ '' file''
                  @ (if length ?del > 1 then ''s'' else '''')
                  @ '': '' @ joinWith '', '' (map cf_file ?del) @ statsSuffix ?cf"
    if "?new = []" and "?del \<noteq> []" and "length ?del \<le> 3"
    using headline_deleted [OF that(1,2)] that(3) by (simp add: assembledMessage_def)
  have d4: "?msg = ''Remove '' @ showNat (length ?del) @ '' files'' @ statsSuffix ?cf"
    if "?new = []" and "4 \<le> length ?del"
  proof -
    from that have "?del \<noteq> []" by auto
    from headline_deleted [OF that(1) this] that(2) show ?thesis
      by (simp add: assembledMessage_def)
  qed
  have m3: "?msg = ''Update '' @ showNat (length ?upd) @ '' file''
                  @ (if length ?upd > 1 then ''s'' else '''')
                  @ '': '' @ joinWith '', '' (map cf_file ?upd) @ statsSuffix ?cf"
    if "?new = []" and "?del = []" and "?upd \<noteq> []" and "length ?upd \<le> 3"
    using headline_modified [OF that(1,2,3)] that(4) by (simp add: assembledMessage_def)
  have m4: "?msg = ''Update '' @ showNat (length ?upd) @ '' files'' @ statsSuffix ?cf"
    if "?new = []" and "?del = []" and "4 \<le> length ?upd"
  proof -
    from that have "?upd \<noteq> []" by auto
    from headline_modified [OF that(1,2) this] that(3) show ?thesis
      by (simp add: assembledMessage_def)
  qed
  have on: "map cf_file ?new =
        map fileName (filter (\<lambda>f. fileName f \<notin> set excludeFiles
          \<and> insertions (toChangedFile f) > 0 \<and> deletions (toChangedFile f) = 0) files)"
    unfolding newFilesOf_def by (rule bucket_names)
  have od: "map cf_file ?del =
        map fileName (filter (\<lambda>f. fileName f \<notin> set excludeFiles
          \<and> insertions (toChangedFile f) = 0 \<and> deletions (toChangedFile f) > 0) files)"
    unfolding deletedFilesOf_def by (rule bucket_names)
  have om: "map cf_file ?upd =
        map fileName (filter (\<lambda>f. fileName f \<notin> set excludeFiles
          \<and> insertions (toChangedFile f) > 0 \<and> deletions (toChangedFile f) > 0) files)"
    unfolding modifiedFilesOf_def by (rule bucket_names)
  from run n3 n4 d3 d4 m3 m4 on od om show ?thesis
    unfolding Let_def by blast
qed

theorem listing_threshold_witness:
  "length (newFilesOf (changedFilesOf
      [DiffResultTextFile ''a.ts'' 1 1 0, DiffResultTextFile ''b.ts'' 1 1 0,
       DiffResultTextFile ''c.ts'' 1 1 0])) = 3
   \<and> generateCommitMessage
        (repoWith [DiffResultTextFile ''a.ts'' 1 1 0, DiffResultTextFile ''b.ts'' 1 1 0,
                   DiffResultTextFile ''c.ts'' 1 1 0])
        \<lparr>rootDir = ''repo'', maxLength = None\<rparr>
          = Inr ''Add 3 new files: a.ts, b.ts, c.ts (+3 -0)''
   \<and> length (newFilesOf (changedFilesOf
      [DiffResultTextFile ''a.ts'' 1 1 0, DiffResultTextFile ''b.ts'' 1 1 0,
       DiffResultTextFile ''c.ts'' 1 1 0, DiffResultTextFile ''d.ts'' 1 1 0])) = 4
   \<and> generateCommitMessage
        (repoWith [DiffResultTextFile ''a.ts'' 1 1 0, DiffResultTextFile ''b.ts'' 1 1 0,
                   DiffResultTextFile ''c.ts'' 1 1 0, DiffResultTextFile ''d.ts'' 1 1 0])
        \<lparr>rootDir = ''repo'', maxLength = None\<rparr>
          = Inr ''Add 4 new files (+4 -0)''"
  using
    listing_threshold
      [of "repoWith [DiffResultTextFile ''a.ts'' 1 1 0, DiffResultTextFile ''b.ts'' 1 1 0,
                     DiffResultTextFile ''c.ts'' 1 1 0]"
        "\<lparr>rootDir = ''repo'', maxLength = None\<rparr>"
        "\<lparr>git_diffSummary =
            Inr [DiffResultTextFile ''a.ts'' 1 1 0, DiffResultTextFile ''b.ts'' 1 1 0,
                 DiffResultTextFile ''c.ts'' 1 1 0],
          git_diff = (\<lambda>args. Inr (''diff of '' @ concat (tl args)))\<rparr>"
        "[DiffResultTextFile ''a.ts'' 1 1 0, DiffResultTextFile ''b.ts'' 1 1 0,
          DiffResultTextFile ''c.ts'' 1 1 0]"]
    listing_threshold
      [of "repoWith [DiffResultTextFile ''a.ts'' 1 1 0, DiffResultTextFile ''b.ts'' 1 1 0,
                     DiffResultTextFile ''c.ts'' 1 1 0, DiffResultTextFile ''d.ts'' 1 1 0]"
        "\<lparr>rootDir = ''repo'', maxLength = None\<rparr>"
        "\<lparr>git_diffSummary =
            Inr [DiffResultTextFile ''a.ts'' 1 1 0, DiffResultTextFile ''b.ts'' 1 1 0,
                 DiffResultTextFile ''c.ts'' 1 1 0, DiffResultTextFile ''d.ts'' 1 1 0],
          git_diff = (\<lambda>args. Inr (''diff of '' @ concat (tl args)))\<rparr>"
        "[DiffResultTextFile ''a.ts'' 1 1 0, DiffResultTextFile ''b.ts'' 1 1 0,
          DiffResultTextFile ''c.ts'' 1 1 0, DiffResultTextFile ''d.ts'' 1 1 0]"]
  by (simp add: run_defs)

section \<open>The change reader\<close>

text \<open>
  Claim C4 as stated (each returned record carries the file path, the insertion count,
  the deletion count and the diff text) fails: the records pushed by the loop hold the
  path and the diff text only. Two summaries that differ in nothing but the counts of
  their file give the same result.
\<close>

theorem counts_not_returned_counterexample:
  "getFileChangesInDirectory (repoWith [DiffResultTextFile ''a.ts'' 13 10 3]) ''repo''
     = Inr [\<lparr>fd_file = ''a.ts'', fd_diff = ''diff of a.ts''\<rparr>]
   \<and> getFileChangesInDirectory (repoWith [DiffResultTextFile ''a.ts'' 2 1 1]) ''repo''
     = Inr [\<lparr>fd_file = ''a.ts'', fd_diff = ''diff of a.ts''\<rparr>]
   \<and> insertions (toChangedFile (DiffResultTextFile ''a.ts'' 13 10 3))
       \<noteq> insertions (toChangedFile (DiffResultTextFile ''a.ts'' 2 1 1))
   \<and> deletions (toChangedFile (DiffResultTextFile ''a.ts'' 13 10 3))
       \<noteq> deletions (toChangedFile (DiffResultTextFile ''a.ts'' 2 1 1))"
  by (simp add: run_defs)

text \<open>
  Claim C4, amended: when the repository opens, the diff summary succeeds and the diff
  of every file that is not excluded succeeds, the function returns one record for
  each entry of the summary whose path is not in the exclusion set, in the order of
  the summary, and the record holds the path of the entry and its diff text (no
  insertion or deletion count).
\<close>

theorem changes_are_filtered_diffs:
  assumes "simpleGit dir = Inr git"
    and "git_diffSummary git = Inr files"
    and "\<forall>f \<in> set files. fileName f \<notin> set excludeFiles \<longrightarrow>
           git_diff git [''--'', fileName f] = Inr (d (fileName f))"
  shows "getFileChangesInDirectory simpleGit dir =
           Inr (map (\<lambda>f. \<lparr>fd_file = fileName f, fd_diff = d (fileName f)\<rparr>)
                    (filter (\<lambda>f. fileName f \<notin> set excludeFiles) files))"
  using assms(1,2) collectDiffs_total [OF assms(3), of "[]"]
  by (simp add: getFileChangesInDirectory_def)

theorem changes_are_filtered_diffs_witness:
  "getFileChangesInDirectory
     (repoWith [DiffResultTextFile ''b.ts'' 3 3 0, DiffResultTextFile ''dist'' 9 9 0,
                DiffResultBinaryFile ''a.png'' 10 20])
     ''repo''
     = Inr [\<lparr>fd_file = ''b.ts'', fd_diff = ''diff of b.ts''\<rparr>,
            \<lparr>fd_file = ''a.png'', fd_diff = ''diff of a.png''\<rparr>]"
  using changes_are_filtered_diffs
    [of "repoWith [DiffResultTextFile ''b.ts'' 3 3 0, DiffResultTextFile ''dist'' 9 9 0,
                   DiffResultBinaryFile ''a.png'' 10 20]"
      "''repo''"
      "\<lparr>git_diffSummary =
          Inr [DiffResultTextFile ''b.ts'' 3 3 0, DiffResultTextFile ''dist'' 9 9 0,
               DiffResultBinaryFile ''a.png'' 10 20],
        git_diff = (\<lambda>args. Inr (''diff of '' @ concat (tl args)))\<rparr>"
      "[DiffResultTextFile ''b.ts'' 3 3 0, DiffResultTextFile ''dist'' 9 9 0,
        DiffResultBinaryFile ''a.png'' 10 20]"
      "\<lambda>n. ''diff of '' @ n"]
  by (simp add: repoWith_def excludeFiles_def)

section \<open>The exclusion set\<close>

text \<open>
  Claim C8: both functions exclude a file exactly when its reported path is equal, as
  a whole string, to \<open>dist\<close> or to \<open>bun.lock\<close>. The paths kept by
  \<open>getFileChangesInDirectory\<close> (when it returns) and by the filter of
  \<open>generateCommitMessage\<close> are the paths of the summary other than these two strings,
  so a path inside the excluded directory, such as \<open>dist/index.js\<close>, is kept and
  reported like any other file.
\<close>

theorem exclusion_is_exact_match:
  "(fileName f \<in> set excludeFiles \<longleftrightarrow> fileName f = ''dist'' \<or> fileName f = ''bun.lock'')
   \<and> map cf_file (changedFilesOf files) =
       filter (\<lambda>n. n \<noteq> ''dist'' \<and> n \<noteq> ''bun.lock'') (map fileName files)
   \<and> (simpleGit dir = Inr git \<and> git_diffSummary git = Inr files
        \<and> getFileChangesInDirectory simpleGit dir = Inr out \<longrightarrow>
       map fd_file out = filter (\<lambda>n. n \<noteq> ''dist'' \<and> n \<noteq> ''bun.lock'') (map fileName files))
   \<and> getFileChangesInDirectory
        (repoWith [DiffResultTextFile ''dist/index.js'' 1 1 0, DiffResultTextFile ''dist'' 4 2 2])
        ''repo'' = Inr [\<lparr>fd_file = ''dist/index.js'', fd_diff = ''diff of dist/index.js''\<rparr>]
   \<and> generateCommitMessage
        (repoWith [DiffResultTextFile ''dist/index.js'' 1 1 0, DiffResultTextFile ''dist'' 4 2 2])
        \<lparr>rootDir = ''repo'', maxLength = None\<rparr> = Inr ''Add 1 new file: dist/index.js (+1 -0)''"
proof -
  have kept: "(\<lambda>n. n \<notin> set excludeFiles) = (\<lambda>n. n \<noteq> ''dist'' \<and> n \<noteq> ''bun.lock'')"
    by (auto simp: excludeFiles_def)
  have a: "fileName f \<in> set excludeFiles \<longleftrightarrow> fileName f = ''dist'' \<or> fileName f = ''bun.lock''"
    by (rule excluded_iff)
  have "map cf_file (changedFilesOf files) =
          filter (\<lambda>n. n \<notin> set excludeFiles) (map fileName files)"
    by (simp add: changedFilesOf_def filter_map comp_def)
  then have b: "map cf_file (changedFilesOf files) =
       filter (\<lambda>n. n \<noteq> ''dist'' \<and> n \<noteq> ''bun.lock'') (map fileName files)"
    by (simp only: kept)
  have c: "map fd_file out = filter (\<lambda>n. n \<noteq> ''dist'' \<and> n \<noteq> ''bun.lock'') (map fileName files)"
    if "simpleGit dir = Inr git" and "git_diffSummary git = Inr files"
      and "getFileChangesInDirectory simpleGit dir = Inr out"
  proof -
    from that have "collectDiffs git files [] = Inr out"
      by (simp add: getFileChangesInDirectory_def)
    from collectDiffs_names [OF this] show ?thesis by (simp add: kept)
  qed
  have d: "getFileChangesInDirectory
        (repoWith [DiffResultTextFile ''dist/index.js'' 1 1 0, DiffResultTextFile ''dist'' 4 2 2])
        ''repo'' = Inr [\<lparr>fd_file = ''dist/index.js'', fd_diff = ''diff of dist/index.js''\<rparr>]"
    by (simp add: run_defs)
  have e: "generateCommitMessage
        (repoWith [DiffResultTextFile ''dist/index.js'' 1 1 0, DiffResultTextFile ''dist'' 4 2 2])
        \<lparr>rootDir = ''repo'', maxLength = None\<rparr> = Inr ''Add 1 new file: dist/index.js (+1 -0)''"
    by (simp add: run_defs)
  from a b c d e show ?thesis by blast
qed

theorem exclusion_is_exact_match_witness:
  "getFileChangesInDirectory
     (repoWith [DiffResultTextFile ''dist/index.js'' 1 1 0, DiffResultTextFile ''bun.lock'' 4 2 2])
     ''repo'' = Inr [\<lparr>fd_file = ''dist/index.js'', fd_diff = ''diff of dist/index.js''\<rparr>]
   \<and> map fd_file [\<lparr>fd_file = ''dist/index.js'', fd_diff = ''diff of dist/index.js''\<rparr>]
       = filter (\<lambda>n. n \<noteq> ''dist'' \<and> n \<noteq> ''bun.lock'')
           (map fileName [DiffResultTextFile ''dist/index.js'' 1 1 0,
                          DiffResultTextFile ''bun.lock'' 4 2 2])
   \<and> map cf_file (changedFilesOf [DiffResultTextFile ''dist/index.js'' 1 1 0,
                                  DiffResultTextFile ''bun.lock'' 4 2 2]) = [''dist/index.js'']"
  using exclusion_is_exact_match
    [of "DiffResultTextFile ''dist/index.js'' 1 1 0"
      "[DiffResultTextFile ''dist/index.js'' 1 1 0, DiffResultTextFile ''bun.lock'' 4 2 2]"
      "repoWith [DiffResultTextFile ''dist/index.js'' 1 1 0, DiffResultTextFile ''bun.lock'' 4 2 2]"
      "''repo''"
      "\<lparr>git_diffSummary =
          Inr [DiffResultTextFile ''dist/index.js'' 1 1 0, DiffResultTextFile ''bun.lock'' 4 2 2],
        git_diff = (\<lambda>args. Inr (''diff of '' @ concat (tl args)))\<rparr>"
      "[\<lparr>fd_file = ''dist/index.js'', fd_diff = ''diff of dist/index.js''\<rparr>]"]
  by (simp add: run_defs)

section \<open>The report writer\<close>

text \<open>
  Claim C7 as stated (the file name \<open>notes\<close> with the default directory resolves to
  the path \<open>./notes.md\<close>) fails on the spelling of the path: \<^verbatim>\<open>path.join\<close> normalises
  its result, so the leading \<open>./\<close> is dropped and the path reported is \<open>notes.md\<close>.
\<close>

theorem default_directory_path_counterexample:
  "writeMarkdownFile listFs ''2026-01-01T00:00:00.000Z''
     \<lparr>content = ''ok'', filename = ''notes'', directory = None\<rparr> []
     = Inr (\<lparr>success = True, filePath = ''notes.md'',
              message = ''Markdown file written successfully to notes.md''\<rparr>,
            [(''notes.md'', header ''2026-01-01T00:00:00.000Z'' @ ''ok'')])
   \<and> join ''.'' ''notes.md'' = ''notes.md''
   \<and> ''notes.md'' \<noteq> ''./notes.md''"
  by (simp add: writeMarkdownFile_def listFs_def directoryOf_def markdownFilename_def
      endsWith_def join_def normalizePath_def Let_def)

text \<open>
  Claim C7, amended: the file name is normalised to end with \<open>.md\<close>, the extension
  being appended exactly when it is absent, so that the normalisation is idempotent:
  \<open>notes\<close> becomes \<open>notes.md\<close> and \<open>notes.md\<close> stays as it is (never
  \<open>notes.md.md\<close>). A successful write of \<open>notes\<close> with the default directory reports
  the path that \<^verbatim>\<open>path.join\<close> gives for the directory \<open>.\<close> and the name \<open>notes.md\<close>;
  with Node's join that path is \<open>notes.md\<close>, the file \<open>notes.md\<close> of the current
  directory.
\<close>

theorem markdown_extension_normalised:
  "endsWith (markdownFilename name) ''.md''
   \<and> (markdownFilename name = name \<longleftrightarrow> endsWith name ''.md'')
   \<and> (markdownFilename name = name @ ''.md'' \<longleftrightarrow> \<not> endsWith name ''.md'')
   \<and> markdownFilename (markdownFilename name) = markdownFilename name
   \<and> markdownFilename ''notes'' = ''notes.md''
   \<and> markdownFilename ''notes.md'' = ''notes.md''
   \<and> (writeMarkdownFile node timestamp \<lparr>content = c, filename = ''notes'', directory = None\<rparr> fs
         = Inr (r, fs') \<longrightarrow> filePath r = pathJoin node ''.'' ''notes.md'')
   \<and> (writeMarkdownFile node timestamp \<lparr>content = c, filename = ''notes'', directory = None\<rparr> fs
         = Inr (r, fs') \<and> pathJoin node = join \<longrightarrow> filePath r = ''notes.md'')"
proof -
  have e: "endsWith (markdownFilename name) ''.md''"
    by (rule markdownFilename_ends)
  have k: "markdownFilename name = name \<longleftrightarrow> endsWith name ''.md''"
    by (simp add: markdownFilename_def)
  have a: "markdownFilename name = name @ ''.md'' \<longleftrightarrow> \<not> endsWith name ''.md''"
    by (simp add: markdownFilename_def)
  have i: "markdownFilename (markdownFilename name) = markdownFilename name"
    using e by (simp add: markdownFilename_def)
  have n1: "markdownFilename ''notes'' = ''notes.md''"
    by (simp add: markdownFilename_def endsWith_def)
  have n2: "markdownFilename ''notes.md'' = ''notes.md''"
    by (simp add: markdownFilename_def endsWith_def)
  have w: "filePath r = pathJoin node ''.'' ''notes.md''"
    if "writeMarkdownFile node timestamp \<lparr>content = c, filename = ''notes'', directory = None\<rparr> fs
         = Inr (r, fs')"
    using writeMarkdownFile_result [OF that] n1 by (simp add: directoryOf_def)
  have j: "join ''.'' ''notes.md'' = ''notes.md''"
    by (simp add: join_def normalizePath_def)
  have w': "filePath r = ''notes.md''"
    if "writeMarkdownFile node timestamp \<lparr>content = c, filename = ''notes'', directory = None\<rparr> fs
         = Inr (r, fs')" and "pathJoin node = join"
    using w [OF that(1)] that(2) j by simp
  from e k a i n1 n2 w w' show ?thesis by blast
qed

theorem markdown_extension_normalised_witness:
  "writeMarkdownFile listFs ''2026-01-01T00:00:00.000Z''
     \<lparr>content = ''ok'', filename = ''notes'', directory = None\<rparr> []
     = Inr (\<lparr>success = True, filePath = ''notes.md'',
              message = ''Markdown file written successfully to notes.md''\<rparr>,
            [(''notes.md'', header ''2026-01-01T00:00:00.000Z'' @ ''ok'')])
   \<and> pathJoin listFs = join
   \<and> pathJoin listFs ''.'' ''notes.md'' = ''notes.md''
   \<and> markdownFilename (markdownFilename ''notes'') = ''notes.md''"
  using markdown_extension_normalised
    [of "''notes''" listFs "''2026-01-01T00:00:00.000Z''" "''ok''" "[]"
      "\<lparr>success = True, filePath = ''notes.md'',
        message = ''Markdown file written successfully to notes.md''\<rparr>"
      "[(''notes.md'', header ''2026-01-01T00:00:00.000Z'' @ ''ok'')]"]
  by (simp add: writeMarkdownFile_def listFs_def directoryOf_def markdownFilename_def
      endsWith_def join_def normalizePath_def Let_def)

text \<open>
  Claim C10: every value returned by \<open>writeMarkdownFile\<close> (as opposed to an error of
  the file system, which propagates) has \<open>success\<close> true, has as \<open>filePath\<close> the join of
  the directory and the normalised file name, and has as \<open>message\<close> the fixed text
  followed by that path; none has \<open>success\<close> false.
\<close>

theorem write_result_always_success:
  assumes "writeMarkdownFile node timestamp inp fs = Inr (r, fs')"
  shows "success r = True
    \<and> success r \<noteq> False
    \<and> filePath r = pathJoin node (directoryOf inp) (markdownFilename (filename inp))
    \<and> message r = ''Markdown file written successfully to '' @ filePath r"
  using writeMarkdownFile_result [OF assms] by simp

theorem write_result_always_success_witness:
  "writeMarkdownFile listFs ''2026-01-01T00:00:00.000Z''
     \<lparr>content = ''ok'', filename = ''report.md'', directory = Some ''out''\<rparr> []
     = Inr (\<lparr>success = True, filePath = ''out/report.md'',
              message = ''Markdown file written successfully to out/report.md''\<rparr>,
            [(''out/report.md'', header ''2026-01-01T00:00:00.000Z'' @ ''ok'')])
   \<and> pathJoin listFs (directoryOf \<lparr>content = ''ok'', filename = ''report.md'', directory = Some ''out''\<rparr>)
        (markdownFilename ''report.md'') = ''out/report.md''"
  using write_result_always_success
    [of listFs "''2026-01-01T00:00:00.000Z''"
      "\<lparr>content = ''ok'', filename = ''report.md'', directory = Some ''out''\<rparr>" "[]"
      "\<lparr>success = True, filePath = ''out/report.md'',
        message = ''Markdown file written successfully to out/report.md''\<rparr>"
      "[(''out/report.md'', header ''2026-01-01T00:00:00.000Z'' @ ''ok'')]"]
  by (simp add: writeMarkdownFile_def listFs_def directoryOf_def markdownFilename_def
      endsWith_def join_def normalizePath_def Let_def)

end
